theory Spec2Isabelle
  imports Complex_Main
begin

section \<open>JavaScript values used by the race analysis screen\<close>

text \<open>
  The screen is the React component \<open>RaceAnalysis\<close> of
  \<open>frontend/src/pages/RaceAnalysis.jsx\<close>. Its inputs are JSON data, so numbers are
  finite IEEE doubles; a double is modelled by its exact rational value (negative zero is
  identified with zero). Arithmetic on doubles can leave the finite numbers, hence
  \<open>jsnum\<close>. Strings are byte lists (UTF-8); the only test the code makes on a string is
  whether it is empty.
\<close>

datatype jsnum = Finite rat | PosInfinity | NegInfinity | NaN

text \<open>
  Three operations of the runtime are not part of the repository and their results are never
  inspected by the code: the rounding product of two doubles, \<open>Number::toString\<close> and the
  source text of a built-in function. They are parameters of the model.
\<close>

record js_runtime =
  multiply :: "rat \<Rightarrow> rat \<Rightarrow> jsnum"
  number_to_string :: "rat \<Rightarrow> string"
  function_to_string :: "string \<Rightarrow> string"

text \<open>
  A value that ends up as a child of a JSX element or inside a template literal. The object
  every object literal inherits from, \<open>Object.prototype\<close>, is the only object that the
  typed inputs can put there.
\<close>

datatype jsvalue =
    Str string
  | Number rat
  | Undefined
  | Function string
  | ObjectPrototype

datatype exception = TypeError | InvalidChildError

definition string_child :: "string option \<Rightarrow> jsvalue" where
  "string_child v = (case v of None \<Rightarrow> Undefined | Some s \<Rightarrow> Str s)"

definition number_child :: "rat option \<Rightarrow> jsvalue" where
  "number_child v = (case v of None \<Rightarrow> Undefined | Some x \<Rightarrow> Number x)"

text \<open>A string in a boolean position (\<open>if (error)\<close>, \<open>a || b\<close>, \<open>a && b\<close>).\<close>

definition truthy :: "string option \<Rightarrow> bool" where
  "truthy v = (case v of None \<Rightarrow> False | Some s \<Rightarrow> s \<noteq> [])"

definition or_else :: "string option \<Rightarrow> string \<Rightarrow> string" where
  "or_else v d = (case v of None \<Rightarrow> d | Some s \<Rightarrow> if s \<noteq> [] then s else d)"

subsection \<open>\<open>Number.prototype.toFixed\<close>\<close>

definition digit_char :: "nat \<Rightarrow> char" where
  "digit_char d = ''0123456789'' ! d"

fun decimal :: "nat \<Rightarrow> string" where
  "decimal n = (if n < 10 then [digit_char n] else decimal (n div 10) @ [digit_char (n mod 10)])"

declare decimal.simps [simp del]

text \<open>
  For \<open>0 \<le> x < 10^21\<close>: the integer \<open>n\<close> nearest to \<open>x * 10^f\<close> (the larger one on a tie),
  written in decimal, padded with zeros to \<open>f + 1\<close> digits, with the point before the last
  \<open>f\<close> digits.
\<close>

definition fixed_digits :: "nat \<Rightarrow> rat \<Rightarrow> string" where
  "fixed_digits f x =
     (let n = nat \<lfloor>x * 10 ^ f + 1 / 2\<rfloor>;
          m = decimal n
      in if f = 0 then m
         else let m' = (if length m \<le> f then replicate (f + 1 - length m) (CHR ''0'') @ m else m);
                  k = length m'
              in take (k - f) m' @ ''.'' @ drop (k - f) m')"

text \<open>
  \<open>x.toFixed(f)\<close>; the two call sites pass the literals 1 and 0, so the range check on \<open>f\<close>
  never fails.
\<close>

fun toFixed :: "js_runtime \<Rightarrow> nat \<Rightarrow> jsnum \<Rightarrow> string" where
  "toFixed rt f NaN = ''NaN''"
| "toFixed rt f PosInfinity = ''Infinity''"
| "toFixed rt f NegInfinity = ''-Infinity''"
| "toFixed rt f (Finite x) =
     (let s = (if x < 0 then ''-'' else '''');
          y = \<bar>x\<bar>
      in if 10 ^ 21 \<le> y then s @ number_to_string rt y else s @ fixed_digits f y)"

text \<open>\<open>v?.toFixed(f)\<close> and \<open>(v * 100)\<close> for a numeric field \<open>v\<close> that may be absent.\<close>

definition toFixed_opt :: "js_runtime \<Rightarrow> nat \<Rightarrow> rat option \<Rightarrow> jsvalue" where
  "toFixed_opt rt f v = (case v of None \<Rightarrow> Undefined | Some x \<Rightarrow> Str (toFixed rt f (Finite x)))"

definition times100 :: "js_runtime \<Rightarrow> rat option \<Rightarrow> jsnum" where
  "times100 rt v = (case v of None \<Rightarrow> NaN | Some x \<Rightarrow> multiply rt x 100)"

subsection \<open>Property lookup and children\<close>

text \<open>
  \<open>obj[key]\<close> on an object literal: an own property, otherwise what every object inherits
  from \<open>Object.prototype\<close>. The key \<open>__proto__\<close> gives the prototype object itself, the
  other inherited names give built-in methods.
\<close>

definition object_prototype_methods :: "string list" where
  "object_prototype_methods =
     [''constructor'', ''hasOwnProperty'', ''isPrototypeOf'', ''propertyIsEnumerable'',
      ''toLocaleString'', ''toString'', ''valueOf'',
      ''__defineGetter__'', ''__defineSetter__'', ''__lookupGetter__'', ''__lookupSetter__'']"

definition get_property :: "(string \<times> string) list \<Rightarrow> string \<Rightarrow> jsvalue" where
  "get_property obj key =
     (case map_of obj key of
        Some v \<Rightarrow> Str v
      | None \<Rightarrow>
          if key = ''__proto__'' then ObjectPrototype
          else if key \<in> set object_prototype_methods then Function key
          else Undefined)"

text \<open>The property key made from a field that may be absent.\<close>

definition property_key :: "string option \<Rightarrow> string" where
  "property_key v = (case v of None \<Rightarrow> ''undefined'' | Some s \<Rightarrow> s)"

text \<open>A value inside a template literal.\<close>

fun template_string :: "js_runtime \<Rightarrow> jsvalue \<Rightarrow> string" where
  "template_string rt (Str s) = s"
| "template_string rt (Number x) = number_to_string rt x"
| "template_string rt Undefined = ''undefined''"
| "template_string rt (Function name) = function_to_string rt name"
| "template_string rt ObjectPrototype = ''[object Object]''"

text \<open>
  React puts strings and numbers on the page, shows nothing for \<open>undefined\<close> and for a
  function, and throws for an object that is not an element.
\<close>

fun valid_child :: "jsvalue \<Rightarrow> bool" where
  "valid_child ObjectPrototype = False"
| "valid_child _ = True"

fun child_text :: "js_runtime \<Rightarrow> jsvalue \<Rightarrow> string" where
  "child_text rt (Str s) = s"
| "child_text rt (Number x) = number_to_string rt x"
| "child_text rt _ = []"

definition text_content :: "js_runtime \<Rightarrow> jsvalue list \<Rightarrow> string" where
  "text_content rt cs = concat (map (child_text rt) cs)"

text \<open>\<open>xs.slice(start, end)\<close> for \<open>0 \<le> start \<le> end\<close>, and \<open>xs.map((x, i) => f x i)\<close>.\<close>

definition slice :: "'a list \<Rightarrow> nat \<Rightarrow> nat \<Rightarrow> 'a list" where
  "slice xs start end = drop start (take end xs)"

definition map_indexed :: "(nat \<Rightarrow> 'a \<Rightarrow> 'b) \<Rightarrow> 'a list \<Rightarrow> 'b list" where
  "map_indexed f xs = map (\<lambda>(i, x). f i x) (enumerate 0 xs)"

fun join :: "string \<Rightarrow> string list \<Rightarrow> string" where
  "join sep [] = []"
| "join sep [x] = x"
| "join sep (x # y # ys) = x @ sep @ join sep (y # ys)"

section \<open>The analysis response\<close>

text \<open>
  The body of \<open>POST /api/v5/analyze\<close> as the screen reads it. Every field the code guards
  with \<open>?.\<close>, tests or prints directly may be absent (\<open>None\<close>, the \<open>undefined\<close> of
  JavaScript); the fields of a ticket and of a prediction are the ones the data model
  requires. A field of another JSON type than the one written here, \<open>null\<close> included, is not
  a value of these records.
\<close>

record ticket =
  combination :: string
  ticket_type :: string
  amount :: rat
  odds :: rat
  purpose :: "string option"

record prediction =
  boats :: "int list"
  confidence :: rat

record recommendations_obj =
  strategy :: "string option"
  tickets :: "ticket list option"
  total_investment :: "rat option"

record predictions_obj =
  honmei :: "prediction list option"
  chuuane :: "prediction list option"

record data_quality_obj =
  checks :: "string list option"
  score :: "rat option"

record analysis_response =
  status :: "string option"
  should_skip :: "bool option"
  skip_reasons :: "string list option"
  quality_score :: "rat option"
  message :: "string option"
  stability :: "rat option"
  expected_value :: "rat option"
  category :: "string option"
  description :: "string option"
  recommendations :: "recommendations_obj option"
  predictions :: "predictions_obj option"
  data_quality :: "data_quality_obj option"

section \<open>The component \<open>RaceAnalysis\<close>\<close>

record props =
  venue :: string
  raceNumber :: int

text \<open>The three \<open>useState\<close> cells; \<open>null\<close> is \<open>None\<close>.\<close>

record component_state =
  loading :: bool
  result :: "analysis_response option"
  error :: "string option"

definition initial_state :: component_state where
  "initial_state = \<lparr>loading = True, result = None, error = None\<rparr>"

subsection \<open>What is shown\<close>

text \<open>
  A view keeps the values the JSX puts on the page, in the order of the markup: the children
  of the elements whose text depends on the data, the class of the category badge and the
  items produced by each \<open>map\<close>, each with its \<open>key\<close>. Fixed Japanese labels and fixed
  class names are left out.
\<close>

record ticket_item =
  ticket_key :: nat
  combination_child :: jsvalue
  type_child :: jsvalue
  amount_child :: jsvalue
  odds_child :: jsvalue
  purpose_paragraph :: "string option"

record prediction_item =
  prediction_key :: nat
  boats_text :: string
  confidence_child :: jsvalue

record full_analysis_view =
  heading_venue :: string
  heading_race :: int
  badge_class :: string
  badge_children :: "jsvalue list"
  stability_children :: "jsvalue list"
  expected_value_children :: "jsvalue list"
  strategy_child :: jsvalue
  ticket_items :: "ticket_item list"
  total_investment_child :: jsvalue
  honmei_items :: "prediction_item list"
  chuuane_items :: "prediction_item list"
  check_items :: "(nat \<times> string) list"
  quality_text :: string

datatype view =
    Loading
  | Failed jsvalue
  | SkipRecommended "(nat \<times> string) list" "jsvalue list" "jsvalue list"
  | DataInsufficient jsvalue "jsvalue list"
  | FullAnalysis full_analysis_view

text \<open>The two lookup tables of the success branch; the icons are the UTF-8 bytes of the
  green, yellow and red circle.\<close>

definition categoryColors :: "(string \<times> string) list" where
  "categoryColors =
     [(''stable'', ''bg-green-100 text-green-800''),
      (''mixed'', ''bg-yellow-100 text-yellow-800''),
      (''upset'', ''bg-red-100 text-red-800'')]"

definition green_circle :: string where
  "green_circle = [CHR 0xF0, CHR 0x9F, CHR 0x9F, CHR 0xA2]"

definition yellow_circle :: string where
  "yellow_circle = [CHR 0xF0, CHR 0x9F, CHR 0x9F, CHR 0xA1]"

definition red_circle :: string where
  "red_circle = [CHR 0xF0, CHR 0x9F, CHR 0x94, CHR 0xB4]"

definition categoryIcons :: "(string \<times> string) list" where
  "categoryIcons =
     [(''stable'', green_circle), (''mixed'', yellow_circle), (''upset'', red_circle)]"

definition badge_base_class :: string where
  "badge_base_class = ''inline-block px-4 py-2 rounded-full font-bold ''"

text \<open>Lines 64 to 102: the view that advises to skip the race.\<close>

definition skip_view :: "js_runtime \<Rightarrow> analysis_response \<Rightarrow> view" where
  "skip_view rt r =
     SkipRecommended
       (case skip_reasons r of None \<Rightarrow> [] | Some rs \<Rightarrow> map_indexed Pair rs)
       [number_child (stability r), Str ''%'']
       [toFixed_opt rt 1 (expected_value r), Str ''%'']"

text \<open>Lines 107 to 125: the view for insufficient data.\<close>

definition data_insufficient_view :: "js_runtime \<Rightarrow> analysis_response \<Rightarrow> view" where
  "data_insufficient_view rt r =
     DataInsufficient
       (string_child (message r))
       [Str (toFixed rt 0 (times100 rt (quality_score r))), Str ''%'']"

text \<open>Lines 182 to 198 and 215 to 231: one item per ticket and per prediction.\<close>

definition ticket_item_of :: "nat \<Rightarrow> ticket \<Rightarrow> ticket_item" where
  "ticket_item_of i t =
     \<lparr>ticket_key = i,
      combination_child = Str (combination t),
      type_child = Str (ticket_type t),
      amount_child = Number (amount t),
      odds_child = Number (odds t),
      purpose_paragraph = (if truthy (purpose t) then purpose t else None)\<rparr>"

definition prediction_item_of :: "js_runtime \<Rightarrow> nat \<Rightarrow> prediction \<Rightarrow> prediction_item" where
  "prediction_item_of rt i pred =
     \<lparr>prediction_key = i,
      boats_text = join ''-'' (map (\<lambda>b. number_to_string rt (of_int b)) (boats pred)),
      confidence_child = Number (confidence pred)\<rparr>"

text \<open>
  Lines 129 to 265: the success branch, for a response that is not \<open>null\<close>. Of all the
  children only the icon can be an object, so it is the one React may reject.
\<close>

definition full_analysis :: "js_runtime \<Rightarrow> props \<Rightarrow> analysis_response \<Rightarrow> exception + view" where
  "full_analysis rt p r =
     (let v =
        \<lparr>heading_venue = venue p,
         heading_race = raceNumber p,
         badge_class =
           badge_base_class
             @ template_string rt (get_property categoryColors (property_key (category r))),
         badge_children =
           [get_property categoryIcons (property_key (category r)), Str '' '',
            string_child (description r)],
         stability_children = [number_child (stability r), Str ''%''],
         expected_value_children = [Str ''+'', toFixed_opt rt 1 (expected_value r), Str ''%''],
         strategy_child = string_child (Option.bind (recommendations r) strategy),
         ticket_items =
           (case Option.bind (recommendations r) tickets of
              None \<Rightarrow> []
            | Some ts \<Rightarrow> map_indexed ticket_item_of ts),
         total_investment_child = number_child (Option.bind (recommendations r) total_investment),
         honmei_items =
           (case Option.bind (predictions r) honmei of
              None \<Rightarrow> []
            | Some hs \<Rightarrow> map_indexed (prediction_item_of rt) (slice hs 0 3)),
         chuuane_items =
           (case Option.bind (predictions r) chuuane of
              None \<Rightarrow> []
            | Some cs \<Rightarrow> map_indexed (prediction_item_of rt) (slice cs 0 3)),
         check_items =
           (case Option.bind (data_quality r) checks of
              None \<Rightarrow> []
            | Some cs \<Rightarrow> map_indexed Pair cs),
         quality_text = toFixed rt 0 (times100 rt (Option.bind (data_quality r) score))\<rparr>
      in if list_all valid_child (badge_children v) then Inr (FullAnalysis v)
         else Inl InvalidChildError)"

text \<open>
  The body of the component after the hooks (lines 31 to 265). The tests on \<open>result\<close> use
  \<open>?.\<close> and so pass over \<open>null\<close>; the success branch reads \<open>result.category\<close> without
  it, which throws on \<open>null\<close>.
\<close>

definition render :: "js_runtime \<Rightarrow> props \<Rightarrow> component_state \<Rightarrow> exception + view" where
  "render rt p s =
     (if loading s then Inr Loading
      else if truthy (error s) then Inr (Failed (string_child (error s)))
      else if Option.bind (result s) should_skip = Some True
              \<or> Option.bind (result s) status = Some ''skip''
        then (case result s of None \<Rightarrow> Inl TypeError | Some r \<Rightarrow> Inr (skip_view rt r))
      else if Option.bind (result s) status = Some ''data_insufficient''
        then (case result s of None \<Rightarrow> Inl TypeError | Some r \<Rightarrow> Inr (data_insufficient_view rt r))
      else (case result s of None \<Rightarrow> Inl TypeError | Some r \<Rightarrow> full_analysis rt p r))"

subsection \<open>The effect that requests the analysis\<close>

text \<open>
  \<open>analyzeRace\<close> either resolves with the body of the response (any JSON value; the typed
  ones are an object or \<open>null\<close>) or rejects with the error axios raised.
\<close>

record js_error =
  error_message :: "string option"

datatype outcome = Resolved "analysis_response option" | Rejected js_error

text \<open>The text shown when the error carries no message (UTF-8 bytes of the Japanese
  sentence for "the analysis failed").\<close>

definition analysis_failed_text :: string where
  "analysis_failed_text =
     [CHR 0xE5, CHR 0x88, CHR 0x86, CHR 0xE6, CHR 0x9E, CHR 0x90, CHR 0xE3, CHR 0x81, CHR 0xAB,
      CHR 0xE5, CHR 0xA4, CHR 0xB1, CHR 0xE6, CHR 0x95, CHR 0x97, CHR 0xE3, CHR 0x81, CHR 0x97,
      CHR 0xE3, CHR 0x81, CHR 0xBE, CHR 0xE3, CHR 0x81, CHR 0x97, CHR 0xE3, CHR 0x81, CHR 0x9F]"

definition setLoading :: "bool \<Rightarrow> component_state \<Rightarrow> component_state" where
  "setLoading b s = s\<lparr>loading := b\<rparr>"

definition setResult :: "analysis_response option \<Rightarrow> component_state \<Rightarrow> component_state" where
  "setResult d s = s\<lparr>result := d\<rparr>"

definition setError :: "string option \<Rightarrow> component_state \<Rightarrow> component_state" where
  "setError e s = s\<lparr>error := e\<rparr>"

text \<open>
  \<open>analyze\<close> is cut at its \<open>await\<close>: the part that runs when the effect fires (lines 16 and
  17), and the part that runs when the request settles (line 20 or line 22, then the
  \<open>finally\<close> of line 24). Neither part looks at which invocation it belongs to. The
  updates of one part are taken together: a render between the two updates of the second
  part still finds \<open>loading\<close> set and shows the loading view, as the render before it did.
\<close>

definition analyze_begin :: "component_state \<Rightarrow> component_state" where
  "analyze_begin s = setError None (setLoading True s)"

definition analyze_settle :: "outcome \<Rightarrow> component_state \<Rightarrow> component_state" where
  "analyze_settle out s =
     setLoading False
       (case out of
          Resolved d \<Rightarrow> setResult d s
        | Rejected err \<Rightarrow> setError (Some (or_else (error_message err) analysis_failed_text)) s)"

text \<open>
  A mounted component: its current props and state. The effect has the dependencies
  \<open>[venue, raceNumber]\<close>: it runs at mount and again whenever a render brings a different
  pair. \<open>Settle k out\<close> is the request of the \<open>k\<close>-th invocation settling with \<open>out\<close>;
  the state change does not depend on \<open>k\<close>, which only names the request in the statements.
  These are the events of the component taken by itself, under any parent; what \<open>App\<close>
  does with it is the next section.
\<close>

record component =
  current_props :: props
  state :: component_state

datatype event = Rerender props | Settle nat outcome

definition mount :: "props \<Rightarrow> component" where
  "mount p = \<lparr>current_props = p, state = analyze_begin initial_state\<rparr>"

fun step :: "component \<Rightarrow> event \<Rightarrow> component" where
  "step c (Rerender p) =
     (if venue p = venue (current_props c) \<and> raceNumber p = raceNumber (current_props c)
      then c\<lparr>current_props := p\<rparr>
      else \<lparr>current_props = p, state = analyze_begin (state c)\<rparr>)"
| "step c (Settle k out) = c\<lparr>state := analyze_settle out (state c)\<rparr>"

definition run :: "component \<Rightarrow> event list \<Rightarrow> component" where
  "run c evs = foldl step c evs"

definition shown :: "js_runtime \<Rightarrow> component \<Rightarrow> exception + view" where
  "shown rt c = render rt (current_props c) (state c)"

section \<open>The application around the component\<close>

text \<open>
  \<open>App\<close> (\<open>App.jsx\<close>) holds the selection and the flag \<open>analyzing\<close>. While the flag is
  set it renders \<open>RaceAnalysis\<close> alone, with the selection as props; otherwise it renders
  the selection screen with the two selectors and the button that starts the analysis. So
  the component is mounted exactly while \<open>analyzing\<close> holds: \<open>mounted\<close> is the instance on
  screen, numbered in the order of mounting, with its state. Every mount fires the effect
  once, which sends one request; \<open>in_flight\<close> lists the requests not yet settled, each
  under the number of the instance that sent it.
\<close>

record app_state =
  app_venue :: string
  app_raceNumber :: int
  mounted :: "(nat \<times> component_state) option"
  mounts :: nat
  in_flight :: "nat list"

definition analyzing :: "app_state \<Rightarrow> bool" where
  "analyzing a \<longleftrightarrow> mounted a \<noteq> None"

definition app_initial :: app_state where
  "app_initial =
     \<lparr>app_venue = [CHR 0xE5, CHR 0xA4, CHR 0xA7, CHR 0xE6, CHR 0x9D, CHR 0x91],
      app_raceNumber = 12, mounted = None, mounts = 0, in_flight = []\<rparr>"

definition app_props :: "app_state \<Rightarrow> props" where
  "app_props a = \<lparr>venue = app_venue a, raceNumber = app_raceNumber a\<rparr>"

datatype screen = Selection string int | RaceAnalysisScreen "exception + view"

definition app_render :: "js_runtime \<Rightarrow> app_state \<Rightarrow> screen" where
  "app_render rt a =
     (case mounted a of
        None \<Rightarrow> Selection (app_venue a) (app_raceNumber a)
      | Some (k, s) \<Rightarrow> RaceAnalysisScreen (render rt (app_props a) s))"

text \<open>
  The button wired to \<open>onBack\<close> is part of the error view (lines 50 to 55), the skip view,
  the view for insufficient data and the full analysis. The loading view (lines 31 to 41)
  has no button, and a render that throws leaves nothing on the page.
\<close>

fun has_back_button :: "exception + view \<Rightarrow> bool" where
  "has_back_button (Inl _) = False"
| "has_back_button (Inr Loading) = False"
| "has_back_button (Inr _) = True"

definition back_button :: "js_runtime \<Rightarrow> app_state \<Rightarrow> bool" where
  "back_button rt a =
     (case mounted a of
        None \<Rightarrow> False
      | Some (k, s) \<Rightarrow> has_back_button (render rt (app_props a) s))"

text \<open>
  What can happen: the user changes a selector, presses the button that starts the
  analysis, presses the back button, or a request settles. An event whose control is not on
  the page, or the settling of a request that is not in flight, leaves the state as it is.
  Pressing the start button mounts a fresh instance, whose effect sends its request;
  pressing the back button unmounts the instance. A request that settles runs the second
  part of \<open>analyze\<close> on the instance that sent it; were that instance no longer mounted,
  React would drop the update.
\<close>

datatype app_event =
    ChangeVenue string
  | ChangeRaceNumber int
  | HandleAnalyze
  | OnBack
  | Settled nat outcome

fun app_step :: "js_runtime \<Rightarrow> app_state \<Rightarrow> app_event \<Rightarrow> app_state" where
  "app_step rt a (ChangeVenue v) = (if analyzing a then a else a\<lparr>app_venue := v\<rparr>)"
| "app_step rt a (ChangeRaceNumber n) = (if analyzing a then a else a\<lparr>app_raceNumber := n\<rparr>)"
| "app_step rt a HandleAnalyze =
     (if analyzing a then a
      else a\<lparr>mounted := Some (Suc (mounts a), analyze_begin initial_state),
             mounts := Suc (mounts a),
             in_flight := in_flight a @ [Suc (mounts a)]\<rparr>)"
| "app_step rt a OnBack = (if back_button rt a then a\<lparr>mounted := None\<rparr> else a)"
| "app_step rt a (Settled k out) =
     (if k \<notin> set (in_flight a) then a
      else case mounted a of
             None \<Rightarrow> a\<lparr>in_flight := removeAll k (in_flight a)\<rparr>
           | Some (j, s) \<Rightarrow>
               if j = k
               then a\<lparr>mounted := Some (j, analyze_settle out s),
                      in_flight := removeAll k (in_flight a)\<rparr>
               else a\<lparr>in_flight := removeAll k (in_flight a)\<rparr>)"

definition app_run :: "js_runtime \<Rightarrow> app_state \<Rightarrow> app_event list \<Rightarrow> app_state" where
  "app_run rt a evs = foldl (app_step rt) a evs"

section \<open>Notions used to state the properties\<close>

text \<open>
  The path condition of the last \<open>return\<close> of the component: nothing is loading, no error
  is recorded, and the response \<open>r\<close> is neither a skip nor a report of insufficient data.
\<close>

definition success_branch :: "component_state \<Rightarrow> analysis_response \<Rightarrow> bool" where
  "success_branch s r \<longleftrightarrow>
     \<not> loading s \<and> \<not> truthy (error s) \<and> result s = Some r
     \<and> should_skip r \<noteq> Some True \<and> status r \<noteq> Some ''skip''
     \<and> status r \<noteq> Some ''data_insufficient''"

text \<open>
  After the events \<open>evs\<close>: nothing is in flight unless an instance is mounted; the mounted
  instance is the last one mounted; and either its request is the one in flight and
  its state is the one the effect left, or nothing is in flight and its state is the one its
  own request left when it settled.
\<close>

definition own_request :: "app_event list \<Rightarrow> app_state \<Rightarrow> bool" where
  "own_request evs a \<longleftrightarrow>
     (case mounted a of
        None \<Rightarrow> in_flight a = []
      | Some (k, s) \<Rightarrow>
          k = mounts a
          \<and> (in_flight a = [k] \<and> s = analyze_begin initial_state
              \<or> in_flight a = []
                 \<and> (\<exists>out. Settled k out \<in> set evs
                        \<and> s = analyze_settle out (analyze_begin initial_state))))"


text \<open>The lists the success branch maps over, empty when a guarded access finds nothing.\<close>

definition ticket_list :: "analysis_response \<Rightarrow> ticket list" where
  "ticket_list r =
     (case Option.bind (recommendations r) tickets of None \<Rightarrow> [] | Some ts \<Rightarrow> ts)"

definition honmei_list :: "analysis_response \<Rightarrow> prediction list" where
  "honmei_list r = (case Option.bind (predictions r) honmei of None \<Rightarrow> [] | Some hs \<Rightarrow> hs)"

definition chuuane_list :: "analysis_response \<Rightarrow> prediction list" where
  "chuuane_list r = (case Option.bind (predictions r) chuuane of None \<Rightarrow> [] | Some cs \<Rightarrow> cs)"

text \<open>The objects \<open>{}\<close> that stand for a nested object without any of its fields.\<close>

definition empty_recommendations :: recommendations_obj where
  "empty_recommendations = \<lparr>strategy = None, tickets = None, total_investment = None\<rparr>"

definition empty_predictions :: predictions_obj where
  "empty_predictions = \<lparr>honmei = None, chuuane = None\<rparr>"

definition empty_data_quality :: data_quality_obj where
  "empty_data_quality = \<lparr>checks = None, score = None\<rparr>"

section \<open>Worked inputs\<close>

text \<open>
  A runtime for the worked inputs: its product is exact and it prints natural numbers in
  decimal. The inputs below need no rounding and print no other number.
\<close>

definition plain_runtime :: js_runtime where
  "plain_runtime =
     \<lparr>multiply = (\<lambda>x y. Finite (x * y)),
      number_to_string = (\<lambda>x. decimal (nat \<lfloor>x\<rfloor>)),
      function_to_string = (\<lambda>name. ''function '' @ name @ ''() { [native code] }'')\<rparr>"

text \<open>The selection \<open>App\<close> starts with: the venue Omura (in UTF-8), race 12.\<close>

definition omura_12 :: props where
  "omura_12 =
     \<lparr>venue = [CHR 0xE5, CHR 0xA4, CHR 0xA7, CHR 0xE6, CHR 0x9D, CHR 0x91], raceNumber = 12\<rparr>"

definition empty_response :: analysis_response where
  "empty_response =
     \<lparr>status = None, should_skip = None, skip_reasons = None, quality_score = None,
      message = None, stability = None, expected_value = None, category = None,
      description = None, recommendations = None, predictions = None, data_quality = None\<rparr>"

text \<open>A response that both advises to skip and reports insufficient data.\<close>

definition skip_and_insufficient :: analysis_response where
  "skip_and_insufficient =
     empty_response
       \<lparr>status := Some ''data_insufficient'', should_skip := Some True,
        skip_reasons := Some [''not enough starters''],
        stability := Some 40, expected_value := Some (- 5)\<rparr>"

text \<open>Responses that report insufficient data: a bare one, and one with its two fields.\<close>

definition insufficient_only :: analysis_response where
  "insufficient_only = empty_response\<lparr>status := Some ''data_insufficient''\<rparr>"

definition too_few_races :: analysis_response where
  "too_few_races =
     empty_response
       \<lparr>status := Some ''data_insufficient'', message := Some ''too few races'',
        quality_score := Some (3 / 10)\<rparr>"

text \<open>
  A full analysis with a negative expected value, a ticket that occurs twice, four
  favourite predictions and no \<open>data_quality\<close>; and the view it must give.
\<close>

definition ticket_a :: ticket where
  "ticket_a =
     \<lparr>combination = ''1-2-3'', ticket_type = ''trifecta'', amount = 100, odds = 25 / 2,
      purpose = Some ''main''\<rparr>"

definition ticket_b :: ticket where
  "ticket_b =
     \<lparr>combination = ''1-3-2'', ticket_type = ''trifecta'', amount = 200, odds = 30,
      purpose = None\<rparr>"

definition stable_race :: analysis_response where
  "stable_race =
     empty_response
       \<lparr>stability := Some 80, expected_value := Some (- 5),
        category := Some ''stable'', description := Some ''stable'',
        recommendations :=
          Some \<lparr>strategy = Some ''focus'', tickets = Some [ticket_a, ticket_b, ticket_a],
                total_investment = Some 400\<rparr>,
        predictions :=
          Some \<lparr>honmei =
                  Some [\<lparr>boats = [1, 2, 3], confidence = 45\<rparr>,
                        \<lparr>boats = [1, 3, 2], confidence = 30\<rparr>,
                        \<lparr>boats = [2, 1, 3], confidence = 15\<rparr>,
                        \<lparr>boats = [3, 1, 2], confidence = 10\<rparr>],
                chuuane = Some [\<lparr>boats = [4, 1, 2], confidence = 5\<rparr>]\<rparr>\<rparr>"

definition stable_race_view :: full_analysis_view where
  "stable_race_view =
     \<lparr>heading_venue = venue omura_12,
      heading_race = 12,
      badge_class = ''inline-block px-4 py-2 rounded-full font-bold bg-green-100 text-green-800'',
      badge_children = [Str green_circle, Str '' '', Str ''stable''],
      stability_children = [Number 80, Str ''%''],
      expected_value_children = [Str ''+'', Str ''-5.0'', Str ''%''],
      strategy_child = Str ''focus'',
      ticket_items =
        [\<lparr>ticket_key = 0, combination_child = Str ''1-2-3'', type_child = Str ''trifecta'',
          amount_child = Number 100, odds_child = Number (25 / 2),
          purpose_paragraph = Some ''main''\<rparr>,
         \<lparr>ticket_key = 1, combination_child = Str ''1-3-2'', type_child = Str ''trifecta'',
          amount_child = Number 200, odds_child = Number 30, purpose_paragraph = None\<rparr>,
         \<lparr>ticket_key = 2, combination_child = Str ''1-2-3'', type_child = Str ''trifecta'',
          amount_child = Number 100, odds_child = Number (25 / 2),
          purpose_paragraph = Some ''main''\<rparr>],
      total_investment_child = Number 400,
      honmei_items =
        [\<lparr>prediction_key = 0, boats_text = ''1-2-3'', confidence_child = Number 45\<rparr>,
         \<lparr>prediction_key = 1, boats_text = ''1-3-2'', confidence_child = Number 30\<rparr>,
         \<lparr>prediction_key = 2, boats_text = ''2-1-3'', confidence_child = Number 15\<rparr>],
      chuuane_items =
        [\<lparr>prediction_key = 0, boats_text = ''4-1-2'', confidence_child = Number 5\<rparr>],
      check_items = [],
      quality_text = ''NaN''\<rparr>"

text \<open>A success response with a category and nothing else, and the view it must give.\<close>

definition mixed_bare :: analysis_response where
  "mixed_bare = empty_response\<lparr>category := Some ''mixed''\<rparr>"

definition mixed_bare_view :: full_analysis_view where
  "mixed_bare_view =
     \<lparr>heading_venue = venue omura_12,
      heading_race = 12,
      badge_class = ''inline-block px-4 py-2 rounded-full font-bold bg-yellow-100 text-yellow-800'',
      badge_children = [Str yellow_circle, Str '' '', Undefined],
      stability_children = [Undefined, Str ''%''],
      expected_value_children = [Str ''+'', Undefined, Str ''%''],
      strategy_child = Undefined,
      ticket_items = [],
      total_investment_child = Undefined,
      honmei_items = [],
      chuuane_items = [],
      check_items = [],
      quality_text = ''NaN''\<rparr>"

text \<open>Success responses whose category is not in the tables: an unknown word, the name of
  an inherited method, and the name of the inherited accessor of the prototype.\<close>

definition calm_category :: analysis_response where
  "calm_category =
     empty_response\<lparr>category := Some ''calm'', description := Some ''calm water''\<rparr>"

definition toString_category :: analysis_response where
  "toString_category = empty_response\<lparr>category := Some ''toString''\<rparr>"

definition proto_category :: analysis_response where
  "proto_category = empty_response\<lparr>category := Some ''__proto__''\<rparr>"

text \<open>An error as axios raises it when the server cannot be reached.\<close>

definition network_error :: js_error where
  "network_error = \<lparr>error_message = Some ''Network Error''\<rparr>"


text \<open>A request that fails, after which the user goes back and starts again.\<close>

definition failed_then_retried :: "app_event list" where
  "failed_then_retried =
     [HandleAnalyze, Settled 1 (Rejected network_error),
      OnBack, HandleAnalyze, Settled 2 (Resolved (Some too_few_races))]"

section \<open>Basic facts\<close>

lemma settle_resolved:
  "analyze_settle (Resolved d) s = \<lparr>loading = False, result = d, error = error s\<rparr>"
  by (simp add: analyze_settle_def setLoading_def setResult_def)

lemma settle_rejected:
  "analyze_settle (Rejected e) s =
     \<lparr>loading = False, result = result s,
      error = Some (or_else (error_message e) analysis_failed_text)\<rparr>"
  by (simp add: analyze_settle_def setLoading_def setError_def)

lemma begin_state:
  "analyze_begin s = \<lparr>loading = True, result = result s, error = None\<rparr>"
  by (simp add: analyze_begin_def setLoading_def setError_def)

lemma map_indexed_zip:
  "map_indexed f xs = map (\<lambda>(i, x). f i x) (zip [0..<length xs] xs)"
  by (simp add: map_indexed_def enumerate_eq_zip)

lemma length_map_indexed: "length (map_indexed f xs) = length xs"
  by (simp add: map_indexed_def)

lemma nth_map_indexed: "i < length xs \<Longrightarrow> map_indexed f xs ! i = f i (xs ! i)"
  by (simp add: map_indexed_def nth_enumerate_eq)

lemma minus5_toFixed: "toFixed rt 1 (Finite (- 5)) = ''-5.0''"
  by code_simp

lemma minus5_toFixed_Suc: "toFixed rt (Suc 0) (Finite (- 5)) = ''-5.0''"
  using minus5_toFixed [of rt] by (simp del: toFixed.simps)

lemma thirty_toFixed: "toFixed rt 0 (Finite 30) = ''30''"
  by code_simp

lemma decimal_digit: "n < 10 \<Longrightarrow> decimal n = [digit_char n]"
  by (simp add: decimal.simps)

lemma plain_number_to_string_digit:
  "number_to_string plain_runtime 1 = ''1''"
  "number_to_string plain_runtime 2 = ''2''"
  "number_to_string plain_runtime 3 = ''3''"
  "number_to_string plain_runtime 4 = ''4''"
  by (simp_all add: plain_runtime_def decimal_digit digit_char_def)

text \<open>Whenever the full analysis is shown, it is the success branch run on the result.\<close>

lemma render_full:
  "render rt p s = Inr (FullAnalysis v) \<Longrightarrow> result s = Some r \<Longrightarrow>
     full_analysis rt p r = Inr (FullAnalysis v)"
  by (auto simp: render_def skip_view_def data_insufficient_view_def split: if_splits)

lemma full_analysis_fields:
  assumes "full_analysis rt p r = Inr (FullAnalysis v)"
  shows "expected_value_children v = [Str ''+'', toFixed_opt rt 1 (expected_value r), Str ''%'']"
    and "ticket_items v = map_indexed ticket_item_of (ticket_list r)"
    and "honmei_items v = map_indexed (prediction_item_of rt) (take 3 (honmei_list r))"
    and "chuuane_items v = map_indexed (prediction_item_of rt) (take 3 (chuuane_list r))"
  using assms
  by (auto simp: full_analysis_def Let_def slice_def ticket_list_def honmei_list_def
      chuuane_list_def map_indexed_def split: if_splits option.splits)

text \<open>The worked full analysis, evaluated.\<close>

lemma stable_race_settled:
  "analyze_settle (Resolved (Some stable_race)) initial_state =
     \<lparr>loading = False, result = Some stable_race, error = None\<rparr>"
  by (simp add: settle_resolved initial_state_def)

lemma full_analysis_stable_race:
  "full_analysis plain_runtime omura_12 stable_race = Inr (FullAnalysis stable_race_view)"
  by (simp add: full_analysis_def stable_race_def empty_response_def stable_race_view_def
      ticket_a_def ticket_b_def get_property_def property_key_def categoryColors_def
      categoryIcons_def badge_base_class_def string_child_def number_child_def toFixed_opt_def
      minus5_toFixed_Suc times100_def map_indexed_def slice_def ticket_item_of_def
      prediction_item_of_def truthy_def plain_number_to_string_digit omura_12_def
      toFixed.simps(1) del: toFixed.simps(4))

lemma render_stable_race:
  "render plain_runtime omura_12 (analyze_settle (Resolved (Some stable_race)) initial_state) =
     Inr (FullAnalysis stable_race_view)"
  by (simp add: stable_race_settled render_def truthy_def full_analysis_stable_race)
     (simp add: stable_race_def empty_response_def)

lemma render_skip_and_insufficient:
  "render plain_runtime omura_12
     (analyze_settle (Resolved (Some skip_and_insufficient)) initial_state) =
   Inr (SkipRecommended [(0, ''not enough starters'')] [Number 40, Str ''%'']
          [Str ''-5.0'', Str ''%''])"
  by (simp add: render_def skip_view_def settle_resolved initial_state_def truthy_def
      skip_and_insufficient_def empty_response_def map_indexed_def number_child_def
      toFixed_opt_def minus5_toFixed_Suc del: toFixed.simps)

text \<open>The success branch: when it is reached, when it throws, what a missing object gives.\<close>

lemma render_success: "success_branch s r \<Longrightarrow> render rt p s = full_analysis rt p r"
  by (simp add: success_branch_def render_def)

lemma success_after_settle:
  "should_skip r \<noteq> Some True \<Longrightarrow> status r \<noteq> Some ''skip'' \<Longrightarrow>
   status r \<noteq> Some ''data_insufficient'' \<Longrightarrow>
   success_branch (analyze_settle (Resolved (Some r)) initial_state) r"
  by (simp add: success_branch_def settle_resolved initial_state_def truthy_def)

lemma property_key_proto: "property_key c = ''__proto__'' \<longleftrightarrow> c = Some ''__proto__''"
  by (simp add: property_key_def split: option.splits)

lemma icon_valid: "valid_child (get_property categoryIcons k) \<longleftrightarrow> k \<noteq> ''__proto__''"
  by (simp add: get_property_def categoryIcons_def)

lemma string_child_valid: "valid_child (string_child x)"
  by (simp add: string_child_def split: option.splits)

lemma full_analysis_total:
  "category r \<noteq> Some ''__proto__'' \<Longrightarrow> \<exists>v. full_analysis rt p r = Inr (FullAnalysis v)"
  by (simp add: full_analysis_def Let_def icon_valid property_key_proto string_child_valid)

lemma render_total:
  assumes "result s = Some r" and "category r \<noteq> Some ''__proto__''"
  shows "\<exists>v. render rt p s = Inr v"
proof -
  obtain v where "full_analysis rt p r = Inr (FullAnalysis v)"
    using full_analysis_total [OF assms(2)] by blast
  then show ?thesis using assms(1) by (simp add: render_def)
qed

lemma full_analysis_missing:
  assumes "full_analysis rt p r = Inr (FullAnalysis v)"
  shows "recommendations r = None \<longrightarrow>
           strategy_child v = Undefined \<and> ticket_items v = []
           \<and> total_investment_child v = Undefined"
    and "predictions r = None \<longrightarrow> honmei_items v = [] \<and> chuuane_items v = []"
    and "data_quality r = None \<longrightarrow> check_items v = [] \<and> quality_text v = ''NaN''"
  using assms
  by (auto simp: full_analysis_def Let_def string_child_def number_child_def times100_def
      split: if_splits)

lemma full_analysis_empty_objects:
  "full_analysis rt p (r\<lparr>recommendations := Some empty_recommendations\<rparr>) =
     full_analysis rt p (r\<lparr>recommendations := None\<rparr>)"
  "full_analysis rt p (r\<lparr>predictions := Some empty_predictions\<rparr>) =
     full_analysis rt p (r\<lparr>predictions := None\<rparr>)"
  "full_analysis rt p (r\<lparr>data_quality := Some empty_data_quality\<rparr>) =
     full_analysis rt p (r\<lparr>data_quality := None\<rparr>)"
  by (simp_all add: full_analysis_def empty_recommendations_def empty_predictions_def
      empty_data_quality_def)

lemma render_empty_objects:
  "render rt p (s\<lparr>result := Some (r\<lparr>recommendations := Some empty_recommendations\<rparr>)\<rparr>) =
     render rt p (s\<lparr>result := Some (r\<lparr>recommendations := None\<rparr>)\<rparr>)"
  "render rt p (s\<lparr>result := Some (r\<lparr>predictions := Some empty_predictions\<rparr>)\<rparr>) =
     render rt p (s\<lparr>result := Some (r\<lparr>predictions := None\<rparr>)\<rparr>)"
  "render rt p (s\<lparr>result := Some (r\<lparr>data_quality := Some empty_data_quality\<rparr>)\<rparr>) =
     render rt p (s\<lparr>result := Some (r\<lparr>data_quality := None\<rparr>)\<rparr>)"
  by (simp_all add: render_def full_analysis_empty_objects skip_view_def
      data_insufficient_view_def)

lemma full_analysis_mixed_bare:
  "full_analysis plain_runtime omura_12 mixed_bare = Inr (FullAnalysis mixed_bare_view)"
  by (simp add: full_analysis_def mixed_bare_def empty_response_def mixed_bare_view_def
      get_property_def property_key_def categoryColors_def categoryIcons_def
      badge_base_class_def string_child_def number_child_def toFixed_opt_def times100_def
      omura_12_def)

text \<open>The badge of the success branch, from the two lookups.\<close>

lemma badge_of_full_analysis:
  assumes "get_property categoryIcons (property_key (category r)) = icon"
    and "valid_child icon"
  shows "\<exists>v. full_analysis rt p r = Inr (FullAnalysis v)
           \<and> badge_class v =
               badge_base_class
                 @ template_string rt (get_property categoryColors (property_key (category r)))
           \<and> badge_children v = [icon, Str '' '', string_child (description r)]"
  using assms by (simp add: full_analysis_def Let_def string_child_valid)

lemma lookup_unknown:
  assumes "c \<notin> {''stable'', ''mixed'', ''upset'', ''__proto__''}"
    and "c \<notin> set object_prototype_methods"
  shows "get_property categoryIcons c = Undefined"
    and "get_property categoryColors c = Undefined"
  using assms by (simp_all add: get_property_def categoryIcons_def categoryColors_def)

lemma lookup_method:
  assumes "c \<in> set object_prototype_methods"
  shows "get_property categoryIcons c = Function c"
    and "get_property categoryColors c = Function c"
  using assms
  by (auto simp: get_property_def categoryIcons_def categoryColors_def
      object_prototype_methods_def)

lemma undefined_not_inherited:
  "''undefined'' \<notin> {''stable'', ''mixed'', ''upset'', ''__proto__''}"
  "''undefined'' \<notin> set object_prototype_methods"
  by (simp_all add: object_prototype_methods_def)

text \<open>Runs of events: what every reachable state satisfies.\<close>

lemma analysis_failed_text_nonempty: "analysis_failed_text \<noteq> []"
  by (simp add: analysis_failed_text_def)

lemma or_else_nonempty: "d \<noteq> [] \<Longrightarrow> or_else v d \<noteq> []"
  by (simp add: or_else_def split: option.splits)

lemma run_Nil: "run c [] = c"
  by (simp add: run_def)

lemma run_Cons: "run c (e # evs) = run (step c e) evs"
  by (simp add: run_def)

lemma step_invariant:
  assumes "loading (state c) \<longrightarrow> error (state c) = None" and "error (state c) \<noteq> Some []"
  shows "(loading (state (step c e)) \<longrightarrow> error (state (step c e)) = None)
         \<and> error (state (step c e)) \<noteq> Some []"
proof (cases e)
  case (Rerender p)
  then show ?thesis using assms by (simp add: begin_state)
next
  case (Settle k out)
  then show ?thesis
    using assms or_else_nonempty [OF analysis_failed_text_nonempty]
    by (cases out) (simp_all add: settle_resolved settle_rejected)
qed

lemma run_invariant:
  "(loading (state c) \<longrightarrow> error (state c) = None) \<Longrightarrow> error (state c) \<noteq> Some [] \<Longrightarrow>
   (loading (state (run c evs)) \<longrightarrow> error (state (run c evs)) = None)
   \<and> error (state (run c evs)) \<noteq> Some []"
proof (induction evs arbitrary: c)
  case Nil
  then show ?case by (simp add: run_Nil)
next
  case (Cons e evs)
  from step_invariant [OF Cons.prems, of e]
  show ?case using Cons.IH [of "step c e"] by (simp add: run_Cons)
qed

lemma mount_invariant:
  "loading (state (mount p)) \<longrightarrow> error (state (mount p)) = None"
  "error (state (mount p)) \<noteq> Some []"
  by (simp_all add: mount_def begin_state)

lemma recorded_error_shown:
  assumes "error (state (run (mount p0) evs)) = Some m"
  shows "shown rt (run (mount p0) evs) = Inr (Failed (Str m))"
proof -
  let ?s = "state (run (mount p0) evs)"
  have "(loading ?s \<longrightarrow> error ?s = None) \<and> error ?s \<noteq> Some []"
    using run_invariant [OF mount_invariant] .
  with assms have "\<not> loading ?s" and "m \<noteq> []" by auto
  then show ?thesis
    using assms by (simp add: shown_def render_def truthy_def string_child_def)
qed

text \<open>The application: every reachable state shows the request of the mounted instance.\<close>

lemma render_loading: "loading s \<Longrightarrow> render rt p s = Inr Loading"
  by (simp add: render_def)

lemma render_rejected:
  "render rt p (analyze_settle (Rejected err) s) =
     Inr (Failed (Str (case error_message err of
                         None \<Rightarrow> analysis_failed_text
                       | Some m \<Rightarrow> if m \<noteq> [] then m else analysis_failed_text)))"
  using analysis_failed_text_nonempty
  by (simp add: render_def settle_rejected truthy_def or_else_def string_child_def
      split: option.splits)

lemma back_button_not_loading: "has_back_button (render rt p s) \<Longrightarrow> \<not> loading s"
  by (auto simp: render_def)

lemma own_request_mono: "own_request evs a \<Longrightarrow> own_request (evs @ [e]) a"
  by (auto simp: own_request_def split: option.splits)

lemma app_step_own_request:
  assumes "own_request evs a"
  shows "own_request (evs @ [e]) (app_step rt a e)"
proof (cases e)
  case (ChangeVenue v)
  then show ?thesis using assms
    by (auto simp: own_request_def analyzing_def split: option.splits)
next
  case (ChangeRaceNumber n)
  then show ?thesis using assms
    by (auto simp: own_request_def analyzing_def split: option.splits)
next
  case HandleAnalyze
  then show ?thesis using assms
    by (auto simp: own_request_def analyzing_def split: option.splits)
next
  case OnBack
  show ?thesis
  proof (cases "back_button rt a")
    case True
    then obtain k s where ks: "mounted a = Some (k, s)"
      and "has_back_button (render rt (app_props a) s)"
      by (auto simp: back_button_def split: option.splits)
    then have "\<not> loading s" by (simp add: back_button_not_loading)
    then have "s \<noteq> analyze_begin initial_state" by (auto simp: begin_state)
    then have "in_flight a = []" using assms ks by (auto simp: own_request_def)
    then show ?thesis using OnBack True by (simp add: own_request_def)
  next
    case False
    then show ?thesis using OnBack assms own_request_mono by simp
  qed
next
  case (Settled k out)
  show ?thesis
  proof (cases "k \<in> set (in_flight a)")
    case False
    then show ?thesis using Settled assms own_request_mono by simp
  next
    case True
    then obtain s where "mounted a = Some (k, s)" "k = mounts a" "in_flight a = [k]"
      "s = analyze_begin initial_state"
      using assms by (auto simp: own_request_def split: option.splits)
    then show ?thesis using Settled True by (auto simp: own_request_def)
  qed
qed

lemma app_run_snoc: "app_run rt a (evs @ [e]) = app_step rt (app_run rt a evs) e"
  by (simp add: app_run_def)

lemma app_run_append: "app_run rt a (xs @ ys) = app_run rt (app_run rt a xs) ys"
  by (simp add: app_run_def)

lemma app_run_own_request: "own_request evs (app_run rt app_initial evs)"
proof (induction evs rule: rev_induct)
  case Nil
  show ?case by (simp add: app_run_def own_request_def app_initial_def)
next
  case (snoc e evs)
  then show ?case by (simp add: app_run_snoc app_step_own_request)
qed



lemma app_recorded_error_shown:
  assumes "own_request evs a" and "mounted a = Some (k, s)" and "error s = Some m"
  shows "app_render rt a = RaceAnalysisScreen (Inr (Failed (Str m)))"
proof -
  have "s \<noteq> analyze_begin initial_state"
    using assms(3) by (auto simp: begin_state)
  then obtain out where s: "s = analyze_settle out (analyze_begin initial_state)"
    using assms(1,2) by (auto simp: own_request_def)
  have "\<not> loading s" and "m \<noteq> []"
    using s assms(3) or_else_nonempty [OF analysis_failed_text_nonempty]
    by (cases out; auto simp: settle_resolved settle_rejected begin_state)+
  then show ?thesis
    using assms(2,3) by (simp add: app_render_def render_def truthy_def string_child_def)
qed



lemma render_too_few_races:
  "render plain_runtime p
     (analyze_settle (Resolved (Some too_few_races)) (analyze_begin initial_state)) =
   Inr (DataInsufficient (Str ''too few races'') [Str ''30'', Str ''%''])"
  by (simp add: render_def data_insufficient_view_def settle_resolved begin_state truthy_def
      too_few_races_def empty_response_def string_child_def times100_def plain_runtime_def
      thirty_toFixed del: toFixed.simps)

lemma first_request_sent:
  "app_run plain_runtime app_initial [HandleAnalyze] =
     \<lparr>app_venue = venue omura_12, app_raceNumber = 12,
      mounted = Some (1, analyze_begin initial_state), mounts = 1, in_flight = [1]\<rparr>"
  by (simp add: app_run_def app_initial_def omura_12_def analyzing_def)

lemma first_request_failed:
  "app_run plain_runtime app_initial [HandleAnalyze, Settled 1 (Rejected network_error)] =
     \<lparr>app_venue = venue omura_12, app_raceNumber = 12,
      mounted = Some (1, analyze_settle (Rejected network_error) (analyze_begin initial_state)),
      mounts = 1, in_flight = []\<rparr>"
  by (simp add: app_run_def app_initial_def omura_12_def analyzing_def)

section \<open>Skip precedence\<close>

text \<open>
  C1. When the request resolves with a response \<open>r\<close> whose \<open>should_skip\<close> is true or whose
  \<open>status\<close> is \<open>skip\<close>, and no error is recorded, the component shows the skip view,
  whatever else \<open>r\<close> holds (its \<open>status\<close> may be \<open>data_insufficient\<close>): the skip test
  comes before the other two. The view lists the reasons in order, keyed by their index
  (none when \<open>skip_reasons\<close> is absent), then the stability followed by a percent sign, then
  the expected value with one decimal followed by a percent sign.
\<close>

theorem skip_precedence:
  assumes "should_skip r = Some True \<or> status r = Some ''skip''"
    and "\<not> truthy (error s)"
  shows "render rt p (analyze_settle (Resolved (Some r)) s) =
           Inr (SkipRecommended
                  (map_indexed Pair (case skip_reasons r of None \<Rightarrow> [] | Some rs \<Rightarrow> rs))
                  [number_child (stability r), Str ''%'']
                  [toFixed_opt rt 1 (expected_value r), Str ''%''])"
  using assms
  by (auto simp: render_def skip_view_def settle_resolved map_indexed_def split: option.splits)

theorem skip_precedence_witness:
  "render plain_runtime omura_12
     (analyze_settle (Resolved (Some skip_and_insufficient)) initial_state) =
   Inr (SkipRecommended [(0, ''not enough starters'')] [Number 40, Str ''%'']
          [Str ''-5.0'', Str ''%''])"
proof -
  have h1: "should_skip skip_and_insufficient = Some True
              \<or> status skip_and_insufficient = Some ''skip''"
    by (simp add: skip_and_insufficient_def)
  have h2: "\<not> truthy (error initial_state)"
    by (simp add: truthy_def initial_state_def)
  show ?thesis
    using skip_precedence [OF h1 h2, of plain_runtime omura_12]
    by (simp add: skip_and_insufficient_def empty_response_def map_indexed_def
        number_child_def toFixed_opt_def minus5_toFixed_Suc del: toFixed.simps)
qed

section \<open>Insufficient data\<close>

text \<open>
  C4, as the code has it. When the request resolves with a response \<open>r\<close> whose \<open>status\<close>
  is \<open>data_insufficient\<close> and whose \<open>should_skip\<close> is not true, and no error is recorded,
  the component shows the view for insufficient data, filled from \<open>message\<close> and
  \<open>quality_score\<close> with no default for either: an absent \<open>message\<close> puts nothing in the
  paragraph, and an absent \<open>quality_score\<close> makes the product \<open>NaN\<close>, printed as
  \<open>NaN\<close> before the percent sign.
\<close>

theorem data_insufficient_no_defaults:
  assumes "status r = Some ''data_insufficient''"
    and "should_skip r \<noteq> Some True"
    and "\<not> truthy (error s)"
  shows "render rt p (analyze_settle (Resolved (Some r)) s) =
           Inr (DataInsufficient
                  (case message r of None \<Rightarrow> Undefined | Some m \<Rightarrow> Str m)
                  [Str (case quality_score r of
                          None \<Rightarrow> ''NaN''
                        | Some q \<Rightarrow> toFixed rt 0 (multiply rt q 100)),
                   Str ''%''])"
  using assms
  by (auto simp: render_def data_insufficient_view_def settle_resolved string_child_def
      times100_def split: option.splits)

theorem data_insufficient_no_defaults_witness:
  "render plain_runtime omura_12 (analyze_settle (Resolved (Some too_few_races)) initial_state) =
     Inr (DataInsufficient (Str ''too few races'') [Str ''30'', Str ''%''])"
proof -
  have h1: "status too_few_races = Some ''data_insufficient''"
    by (simp add: too_few_races_def)
  have h2: "should_skip too_few_races \<noteq> Some True"
    by (simp add: too_few_races_def empty_response_def)
  have h3: "\<not> truthy (error initial_state)"
    by (simp add: truthy_def initial_state_def)
  show ?thesis
    using data_insufficient_no_defaults [OF h1 h2 h3, of plain_runtime omura_12]
    by (simp add: too_few_races_def empty_response_def plain_runtime_def thirty_toFixed
        del: toFixed.simps)
qed

text \<open>
  The defaults of the specification are not there: on a response that carries neither field
  no generic text is shown and the score reads \<open>NaN\<close>, not 0.
\<close>

theorem data_insufficient_defaults_counterexample:
  "render plain_runtime omura_12
     (analyze_settle (Resolved (Some insufficient_only)) initial_state) =
   Inr (DataInsufficient Undefined [Str ''NaN'', Str ''%''])"
  by (simp add: render_def data_insufficient_view_def settle_resolved string_child_def
      times100_def insufficient_only_def empty_response_def initial_state_def truthy_def)

section \<open>The sign before the expected value\<close>

text \<open>
  C10. Whenever the full analysis is shown for a result \<open>r\<close>, the paragraph of the expected
  value is a literal plus sign, then \<open>expected_value\<close> with one decimal, then a percent
  sign; the skip view has the same paragraph without the plus sign. So an expected value of
  \<open>-5\<close> reads \<open>+-5.0%\<close> in the full analysis and \<open>-5.0%\<close> in the skip view.
\<close>

theorem expected_value_sign_prefix:
  "(render rt p s = Inr (FullAnalysis v) \<and> result s = Some r \<longrightarrow>
      expected_value_children v = [Str ''+'', toFixed_opt rt 1 (expected_value r), Str ''%''])
   \<and> (render rt p s' = Inr (SkipRecommended items st ev) \<and> result s' = Some r' \<longrightarrow>
      ev = [toFixed_opt rt 1 (expected_value r'), Str ''%''])
   \<and> text_content rt [Str ''+'', toFixed_opt rt 1 (Some (- 5)), Str ''%''] = ''+-5.0%''
   \<and> text_content rt [toFixed_opt rt 1 (Some (- 5)), Str ''%''] = ''-5.0%''"
proof (intro conjI impI)
  assume "render rt p s = Inr (FullAnalysis v) \<and> result s = Some r"
  then have "full_analysis rt p r = Inr (FullAnalysis v)"
    by (blast intro: render_full)
  then show "expected_value_children v =
      [Str ''+'', toFixed_opt rt 1 (expected_value r), Str ''%'']"
    by (rule full_analysis_fields)
next
  assume "render rt p s' = Inr (SkipRecommended items st ev) \<and> result s' = Some r'"
  then show "ev = [toFixed_opt rt 1 (expected_value r'), Str ''%'']"
    by (auto simp: render_def skip_view_def data_insufficient_view_def full_analysis_def
        Let_def split: if_splits)
next
  show "text_content rt [Str ''+'', toFixed_opt rt 1 (Some (- 5)), Str ''%''] = ''+-5.0%''"
    by (simp add: text_content_def toFixed_opt_def minus5_toFixed_Suc del: toFixed.simps)
next
  show "text_content rt [toFixed_opt rt 1 (Some (- 5)), Str ''%''] = ''-5.0%''"
    by (simp add: text_content_def toFixed_opt_def minus5_toFixed_Suc del: toFixed.simps)
qed

theorem expected_value_sign_prefix_witness:
  "render plain_runtime omura_12 (analyze_settle (Resolved (Some stable_race)) initial_state) =
     Inr (FullAnalysis stable_race_view)
   \<and> text_content plain_runtime (expected_value_children stable_race_view) = ''+-5.0%''
   \<and> render plain_runtime omura_12
         (analyze_settle (Resolved (Some skip_and_insufficient)) initial_state) =
       Inr (SkipRecommended [(0, ''not enough starters'')] [Number 40, Str ''%'']
              [Str ''-5.0'', Str ''%''])
   \<and> text_content plain_runtime [Str ''-5.0'', Str ''%''] = ''-5.0%''"
proof -
  let ?s = "analyze_settle (Resolved (Some stable_race)) initial_state"
  let ?s' = "analyze_settle (Resolved (Some skip_and_insufficient)) initial_state"
  have full: "render plain_runtime omura_12 ?s = Inr (FullAnalysis stable_race_view)
                \<and> result ?s = Some stable_race"
    by (simp add: render_stable_race) (simp add: settle_resolved)
  have skip: "render plain_runtime omura_12 ?s' =
                Inr (SkipRecommended [(0, ''not enough starters'')] [Number 40, Str ''%'']
                       [Str ''-5.0'', Str ''%''])
                \<and> result ?s' = Some skip_and_insufficient"
    by (simp add: render_skip_and_insufficient) (simp add: settle_resolved)
  have ev: "expected_value stable_race = Some (- 5)"
    by (simp add: stable_race_def)
  have ev': "expected_value skip_and_insufficient = Some (- 5)"
    by (simp add: skip_and_insufficient_def)
  note inst = expected_value_sign_prefix
    [of plain_runtime omura_12 ?s stable_race_view stable_race ?s'
        "[(0, ''not enough starters'')]" "[Number 40, Str ''%'']" "[Str ''-5.0'', Str ''%'']"
        skip_and_insufficient]
  from inst full ev
  have first: "text_content plain_runtime (expected_value_children stable_race_view) = ''+-5.0%''"
    by simp
  from inst skip ev'
  have second: "text_content plain_runtime [Str ''-5.0'', Str ''%''] = ''-5.0%''"
    by simp
  show ?thesis using full skip first second by simp
qed

section \<open>The lists of the full analysis\<close>

text \<open>
  C7. Whenever the full analysis is shown for a result \<open>r\<close>, the favourite predictions on
  the page are the first three elements of \<open>predictions.honmei\<close> in their order, fewer
  when the list is shorter, so \<open>min 3 (length honmei)\<close> of them, the item at index \<open>i\<close>
  made from the element at index \<open>i\<close>; none when \<open>predictions\<close> or \<open>honmei\<close> is absent.
  The same holds for \<open>predictions.chuuane\<close>.
\<close>

theorem top_three_predictions:
  assumes "render rt p s = Inr (FullAnalysis v)" and "result s = Some r"
  shows "honmei_items v = map_indexed (prediction_item_of rt) (take 3 (honmei_list r))
     \<and> length (honmei_items v) = min 3 (length (honmei_list r))
     \<and> (\<forall>i < length (honmei_items v).
           honmei_items v ! i = prediction_item_of rt i (honmei_list r ! i))
     \<and> chuuane_items v = map_indexed (prediction_item_of rt) (take 3 (chuuane_list r))
     \<and> length (chuuane_items v) = min 3 (length (chuuane_list r))
     \<and> (\<forall>i < length (chuuane_items v).
           chuuane_items v ! i = prediction_item_of rt i (chuuane_list r ! i))
     \<and> (predictions r = None \<longrightarrow> honmei_items v = [] \<and> chuuane_items v = [])
     \<and> (Option.bind (predictions r) honmei = None \<longrightarrow> honmei_items v = [])
     \<and> (Option.bind (predictions r) chuuane = None \<longrightarrow> chuuane_items v = [])"
proof -
  have full: "full_analysis rt p r = Inr (FullAnalysis v)"
    using assms by (rule render_full)
  have h: "honmei_items v = map_indexed (prediction_item_of rt) (take 3 (honmei_list r))"
    and c: "chuuane_items v = map_indexed (prediction_item_of rt) (take 3 (chuuane_list r))"
    using full by (rule full_analysis_fields)+
  have hl: "length (honmei_items v) = min 3 (length (honmei_list r))"
    by (simp add: h length_map_indexed min.commute)
  have cl: "length (chuuane_items v) = min 3 (length (chuuane_list r))"
    by (simp add: c length_map_indexed min.commute)
  have hn: "\<forall>i < length (honmei_items v).
      honmei_items v ! i = prediction_item_of rt i (honmei_list r ! i)"
    by (simp add: h length_map_indexed nth_map_indexed)
  have cn: "\<forall>i < length (chuuane_items v).
      chuuane_items v ! i = prediction_item_of rt i (chuuane_list r ! i)"
    by (simp add: c length_map_indexed nth_map_indexed)
  have e1: "predictions r = None \<longrightarrow> honmei_items v = [] \<and> chuuane_items v = []"
    by (simp add: h c honmei_list_def chuuane_list_def map_indexed_def)
  have e2: "Option.bind (predictions r) honmei = None \<longrightarrow> honmei_items v = []"
    by (simp add: h honmei_list_def map_indexed_def)
  have e3: "Option.bind (predictions r) chuuane = None \<longrightarrow> chuuane_items v = []"
    by (simp add: c chuuane_list_def map_indexed_def)
  show ?thesis using h hl hn c cl cn e1 e2 e3 by blast
qed

theorem top_three_predictions_witness:
  "render plain_runtime omura_12 (analyze_settle (Resolved (Some stable_race)) initial_state) =
     Inr (FullAnalysis stable_race_view)
   \<and> length (honmei_list stable_race) = 4
   \<and> length (honmei_items stable_race_view) = 3
   \<and> map boats_text (honmei_items stable_race_view) = [''1-2-3'', ''1-3-2'', ''2-1-3'']
   \<and> length (chuuane_list stable_race) = 1
   \<and> length (chuuane_items stable_race_view) = 1"
proof -
  let ?s = "analyze_settle (Resolved (Some stable_race)) initial_state"
  have res: "result ?s = Some stable_race"
    by (simp add: settle_resolved)
  have lens: "length (honmei_list stable_race) = 4" "length (chuuane_list stable_race) = 1"
    by (simp_all add: honmei_list_def chuuane_list_def stable_race_def)
  have texts: "map boats_text (honmei_items stable_race_view) = [''1-2-3'', ''1-3-2'', ''2-1-3'']"
    by (simp add: stable_race_view_def)
  from top_three_predictions [OF render_stable_race res]
  have "length (honmei_items stable_race_view) = min 3 (length (honmei_list stable_race))"
    and "length (chuuane_items stable_race_view) = min 3 (length (chuuane_list stable_race))"
    by blast+
  then have "length (honmei_items stable_race_view) = 3"
    and "length (chuuane_items stable_race_view) = 1"
    by (simp_all add: lens)
  then show ?thesis using render_stable_race lens texts by simp
qed

text \<open>
  C8. Whenever the full analysis is shown for a result \<open>r\<close>, the tickets on the page are
  the elements of \<open>recommendations.tickets\<close> one for one and in the same order: as many
  items as tickets, keyed \<open>0, 1, 2, ...\<close>, the item at index \<open>i\<close> made from the ticket at
  index \<open>i\<close> and carrying its combination, type, amount and odds.
\<close>

theorem tickets_in_order:
  assumes "render rt p s = Inr (FullAnalysis v)" and "result s = Some r"
  shows "ticket_items v = map_indexed ticket_item_of (ticket_list r)
     \<and> length (ticket_items v) = length (ticket_list r)
     \<and> (\<forall>i < length (ticket_list r). ticket_items v ! i = ticket_item_of i (ticket_list r ! i))
     \<and> map ticket_key (ticket_items v) = [0..<length (ticket_list r)]
     \<and> map combination_child (ticket_items v) = map (\<lambda>t. Str (combination t)) (ticket_list r)
     \<and> map type_child (ticket_items v) = map (\<lambda>t. Str (ticket_type t)) (ticket_list r)
     \<and> map amount_child (ticket_items v) = map (\<lambda>t. Number (amount t)) (ticket_list r)
     \<and> map odds_child (ticket_items v) = map (\<lambda>t. Number (odds t)) (ticket_list r)"
proof -
  have full: "full_analysis rt p r = Inr (FullAnalysis v)"
    using assms by (rule render_full)
  have t: "ticket_items v = map_indexed ticket_item_of (ticket_list r)"
    using full by (rule full_analysis_fields)
  have len: "length (ticket_items v) = length (ticket_list r)"
    by (simp add: t length_map_indexed)
  have nth: "\<forall>i < length (ticket_list r).
      ticket_items v ! i = ticket_item_of i (ticket_list r ! i)"
    by (simp add: t nth_map_indexed)
  have key: "map ticket_key (ticket_items v) = [0..<length (ticket_list r)]"
    by (rule nth_equalityI) (simp_all add: len nth ticket_item_of_def)
  have comb: "map combination_child (ticket_items v) =
      map (\<lambda>t. Str (combination t)) (ticket_list r)"
    by (rule nth_equalityI) (simp_all add: len nth ticket_item_of_def)
  have type: "map type_child (ticket_items v) = map (\<lambda>t. Str (ticket_type t)) (ticket_list r)"
    by (rule nth_equalityI) (simp_all add: len nth ticket_item_of_def)
  have am: "map amount_child (ticket_items v) = map (\<lambda>t. Number (amount t)) (ticket_list r)"
    by (rule nth_equalityI) (simp_all add: len nth ticket_item_of_def)
  have od: "map odds_child (ticket_items v) = map (\<lambda>t. Number (odds t)) (ticket_list r)"
    by (rule nth_equalityI) (simp_all add: len nth ticket_item_of_def)
  show ?thesis using t len nth key comb type am od by blast
qed

theorem tickets_in_order_witness:
  "render plain_runtime omura_12 (analyze_settle (Resolved (Some stable_race)) initial_state) =
     Inr (FullAnalysis stable_race_view)
   \<and> ticket_list stable_race = [ticket_a, ticket_b, ticket_a]
   \<and> map ticket_key (ticket_items stable_race_view) = [0, 1, 2]
   \<and> map combination_child (ticket_items stable_race_view) =
       [Str ''1-2-3'', Str ''1-3-2'', Str ''1-2-3'']"
proof -
  let ?s = "analyze_settle (Resolved (Some stable_race)) initial_state"
  have res: "result ?s = Some stable_race"
    by (simp add: settle_resolved)
  have ts: "ticket_list stable_race = [ticket_a, ticket_b, ticket_a]"
    by (simp add: ticket_list_def stable_race_def)
  have upt: "[0..<3] = [0, 1, 2]"
    by (simp add: upt_rec)
  from tickets_in_order [OF render_stable_race res]
  have "map ticket_key (ticket_items stable_race_view) = [0..<length (ticket_list stable_race)]"
    and "map combination_child (ticket_items stable_race_view) =
           map (\<lambda>t. Str (combination t)) (ticket_list stable_race)"
    by blast+
  then have "map ticket_key (ticket_items stable_race_view) = [0, 1, 2]"
    and "map combination_child (ticket_items stable_race_view) =
           [Str ''1-2-3'', Str ''1-3-2'', Str ''1-2-3'']"
    by (simp_all add: ts upt ticket_a_def ticket_b_def)
  then show ?thesis using render_stable_race ts by simp
qed

section \<open>No throw on a response\<close>

text \<open>
  C3. A response is an object, not \<open>null\<close> (what a resolved request without a body does is
  C5). For every state whose result is a response, the component returns a view and does
  not throw, provided the category is not the inherited key \<open>__proto__\<close>; that covers
  every response whose category is one of the three declared values or absent. On the
  success branch the view is the full analysis. A missing \<open>recommendations\<close>,
  \<open>predictions\<close> or \<open>data_quality\<close> gives exactly the view of the empty object \<open>{}\<close> in
  its place: no strategy, no tickets and no total; no predictions; no checks, and a score
  that reads \<open>NaN\<close>, the product of \<open>undefined\<close> and 100.
\<close>

theorem render_total_on_responses:
  "(result s = Some r \<and> category r \<noteq> Some ''__proto__'' \<longrightarrow> (\<exists>v. render rt p s = Inr v))
   \<and> (success_branch s r \<and> category r \<noteq> Some ''__proto__'' \<longrightarrow>
        (\<exists>v. render rt p s = Inr (FullAnalysis v)))
   \<and> (render rt p s = Inr (FullAnalysis v) \<and> result s = Some r \<longrightarrow>
        (recommendations r = None \<longrightarrow>
           strategy_child v = Undefined \<and> ticket_items v = []
           \<and> total_investment_child v = Undefined)
        \<and> (predictions r = None \<longrightarrow> honmei_items v = [] \<and> chuuane_items v = [])
        \<and> (data_quality r = None \<longrightarrow> check_items v = [] \<and> quality_text v = ''NaN''))
   \<and> render rt p (s\<lparr>result := Some (r\<lparr>recommendations := None\<rparr>)\<rparr>) =
       render rt p (s\<lparr>result := Some (r\<lparr>recommendations := Some empty_recommendations\<rparr>)\<rparr>)
   \<and> render rt p (s\<lparr>result := Some (r\<lparr>predictions := None\<rparr>)\<rparr>) =
       render rt p (s\<lparr>result := Some (r\<lparr>predictions := Some empty_predictions\<rparr>)\<rparr>)
   \<and> render rt p (s\<lparr>result := Some (r\<lparr>data_quality := None\<rparr>)\<rparr>) =
       render rt p (s\<lparr>result := Some (r\<lparr>data_quality := Some empty_data_quality\<rparr>)\<rparr>)"
proof (intro conjI)
  show "result s = Some r \<and> category r \<noteq> Some ''__proto__'' \<longrightarrow> (\<exists>v. render rt p s = Inr v)"
    using render_total by blast
  show "success_branch s r \<and> category r \<noteq> Some ''__proto__'' \<longrightarrow>
        (\<exists>v. render rt p s = Inr (FullAnalysis v))"
    using full_analysis_total [of r rt p] by (auto simp: render_success)
  show "render rt p s = Inr (FullAnalysis v) \<and> result s = Some r \<longrightarrow>
        (recommendations r = None \<longrightarrow>
           strategy_child v = Undefined \<and> ticket_items v = []
           \<and> total_investment_child v = Undefined)
        \<and> (predictions r = None \<longrightarrow> honmei_items v = [] \<and> chuuane_items v = [])
        \<and> (data_quality r = None \<longrightarrow> check_items v = [] \<and> quality_text v = ''NaN'')"
  proof (intro impI)
    assume "render rt p s = Inr (FullAnalysis v) \<and> result s = Some r"
    then have "full_analysis rt p r = Inr (FullAnalysis v)"
      by (blast intro: render_full)
    from full_analysis_missing [OF this]
    show "(recommendations r = None \<longrightarrow>
           strategy_child v = Undefined \<and> ticket_items v = []
           \<and> total_investment_child v = Undefined)
        \<and> (predictions r = None \<longrightarrow> honmei_items v = [] \<and> chuuane_items v = [])
        \<and> (data_quality r = None \<longrightarrow> check_items v = [] \<and> quality_text v = ''NaN'')"
      by blast
  qed
qed (simp_all add: render_empty_objects)

theorem render_total_on_responses_witness:
  "success_branch (analyze_settle (Resolved (Some mixed_bare)) initial_state) mixed_bare
   \<and> category mixed_bare \<noteq> Some ''__proto__''
   \<and> recommendations mixed_bare = None \<and> predictions mixed_bare = None
   \<and> data_quality mixed_bare = None
   \<and> render plain_runtime omura_12 (analyze_settle (Resolved (Some mixed_bare)) initial_state) =
       Inr (FullAnalysis mixed_bare_view)
   \<and> ticket_items mixed_bare_view = [] \<and> honmei_items mixed_bare_view = []
   \<and> chuuane_items mixed_bare_view = [] \<and> check_items mixed_bare_view = []
   \<and> quality_text mixed_bare_view = ''NaN''"
proof -
  let ?s = "analyze_settle (Resolved (Some mixed_bare)) initial_state"
  have sb: "success_branch ?s mixed_bare"
    by (rule success_after_settle) (simp_all add: mixed_bare_def empty_response_def)
  have cat: "category mixed_bare \<noteq> Some ''__proto__''"
    by (simp add: mixed_bare_def)
  have absent: "recommendations mixed_bare = None" "predictions mixed_bare = None"
    "data_quality mixed_bare = None"
    by (simp_all add: mixed_bare_def empty_response_def)
  have res: "result ?s = Some mixed_bare"
    by (simp add: settle_resolved)
  have shown: "render plain_runtime omura_12 ?s = Inr (FullAnalysis mixed_bare_view)"
    using sb by (simp add: render_success full_analysis_mixed_bare)
  from render_total_on_responses [of ?s mixed_bare plain_runtime omura_12 mixed_bare_view]
    sb cat absent res shown
  have "ticket_items mixed_bare_view = [] \<and> honmei_items mixed_bare_view = []
     \<and> chuuane_items mixed_bare_view = [] \<and> check_items mixed_bare_view = []
     \<and> quality_text mixed_bare_view = ''NaN''"
    by simp
  then show ?thesis using sb cat absent shown by simp
qed

section \<open>The category badge\<close>

text \<open>
  C9, as the code has it. On the success branch the badge is looked up in two fixed tables:
  \<open>stable\<close> gives the green circle and the green classes, \<open>mixed\<close> the yellow circle and
  the yellow classes, \<open>upset\<close> the red circle and the red classes. The tables are object
  literals, so a key they do not own is looked up in what every object inherits. An absent
  category (the key \<open>undefined\<close>) and every other string that names nothing inherited find
  nothing: rendering does not throw, there is no icon, and the class list ends in the word
  \<open>undefined\<close> in place of category classes. The name of an inherited method finds that
  method: rendering does not throw, a function as a child shows nothing, and the class list
  ends in the source text of the method.
\<close>

theorem category_presentation:
  assumes "success_branch s r"
  shows "(category r = Some ''stable'' \<longrightarrow>
            (\<exists>v. render rt p s = Inr (FullAnalysis v)
               \<and> badge_class v = badge_base_class @ ''bg-green-100 text-green-800''
               \<and> badge_children v = [Str green_circle, Str '' '', string_child (description r)]))
     \<and> (category r = Some ''mixed'' \<longrightarrow>
            (\<exists>v. render rt p s = Inr (FullAnalysis v)
               \<and> badge_class v = badge_base_class @ ''bg-yellow-100 text-yellow-800''
               \<and> badge_children v = [Str yellow_circle, Str '' '', string_child (description r)]))
     \<and> (category r = Some ''upset'' \<longrightarrow>
            (\<exists>v. render rt p s = Inr (FullAnalysis v)
               \<and> badge_class v = badge_base_class @ ''bg-red-100 text-red-800''
               \<and> badge_children v = [Str red_circle, Str '' '', string_child (description r)]))
     \<and> (category r = None
          \<or> (\<exists>c. category r = Some c
                \<and> c \<notin> {''stable'', ''mixed'', ''upset'', ''__proto__''}
                \<and> c \<notin> set object_prototype_methods) \<longrightarrow>
            (\<exists>v. render rt p s = Inr (FullAnalysis v)
               \<and> badge_class v = badge_base_class @ ''undefined''
               \<and> badge_children v = [Undefined, Str '' '', string_child (description r)]))
     \<and> (\<forall>c. c \<in> set object_prototype_methods \<and> category r = Some c \<longrightarrow>
            (\<exists>v. render rt p s = Inr (FullAnalysis v)
               \<and> badge_class v = badge_base_class @ function_to_string rt c
               \<and> badge_children v = [Function c, Str '' '', string_child (description r)]))"
proof -
  have r: "render rt p s = full_analysis rt p r"
    using assms by (rule render_success)
  have known: "category r = Some c \<Longrightarrow> (c, icon) \<in> set categoryIcons \<Longrightarrow>
      (c, style) \<in> set categoryColors \<Longrightarrow>
      \<exists>v. render rt p s = Inr (FullAnalysis v) \<and> badge_class v = badge_base_class @ style
         \<and> badge_children v = [Str icon, Str '' '', string_child (description r)]"
    for c icon style
    using badge_of_full_analysis [of r "Str icon" rt p]
    by (auto simp: r property_key_def get_property_def categoryIcons_def categoryColors_def)
  have stable: "category r = Some ''stable'' \<longrightarrow>
            (\<exists>v. render rt p s = Inr (FullAnalysis v)
               \<and> badge_class v = badge_base_class @ ''bg-green-100 text-green-800''
               \<and> badge_children v = [Str green_circle, Str '' '', string_child (description r)])"
    using known [of "''stable''" green_circle "''bg-green-100 text-green-800''"]
    by (simp add: categoryIcons_def categoryColors_def)
  have mixed: "category r = Some ''mixed'' \<longrightarrow>
            (\<exists>v. render rt p s = Inr (FullAnalysis v)
               \<and> badge_class v = badge_base_class @ ''bg-yellow-100 text-yellow-800''
               \<and> badge_children v = [Str yellow_circle, Str '' '', string_child (description r)])"
    using known [of "''mixed''" yellow_circle "''bg-yellow-100 text-yellow-800''"]
    by (simp add: categoryIcons_def categoryColors_def)
  have upset: "category r = Some ''upset'' \<longrightarrow>
            (\<exists>v. render rt p s = Inr (FullAnalysis v)
               \<and> badge_class v = badge_base_class @ ''bg-red-100 text-red-800''
               \<and> badge_children v = [Str red_circle, Str '' '', string_child (description r)])"
    using known [of "''upset''" red_circle "''bg-red-100 text-red-800''"]
    by (simp add: categoryIcons_def categoryColors_def)
  have unknown_key: "\<exists>v. render rt p s = Inr (FullAnalysis v)
               \<and> badge_class v = badge_base_class @ ''undefined''
               \<and> badge_children v = [Undefined, Str '' '', string_child (description r)]"
    if "property_key (category r) \<notin> {''stable'', ''mixed'', ''upset'', ''__proto__''}"
      and "property_key (category r) \<notin> set object_prototype_methods"
    using badge_of_full_analysis [of r Undefined rt p] lookup_unknown [OF that]
    by (simp add: r)
  have other: "category r = None
          \<or> (\<exists>c. category r = Some c
                \<and> c \<notin> {''stable'', ''mixed'', ''upset'', ''__proto__''}
                \<and> c \<notin> set object_prototype_methods) \<longrightarrow>
            (\<exists>v. render rt p s = Inr (FullAnalysis v)
               \<and> badge_class v = badge_base_class @ ''undefined''
               \<and> badge_children v = [Undefined, Str '' '', string_child (description r)])"
  proof (intro impI, elim disjE exE conjE)
    assume "category r = None"
    then have "property_key (category r) = ''undefined''"
      by (simp add: property_key_def)
    then show "\<exists>v. render rt p s = Inr (FullAnalysis v)
               \<and> badge_class v = badge_base_class @ ''undefined''
               \<and> badge_children v = [Undefined, Str '' '', string_child (description r)]"
      using unknown_key undefined_not_inherited by simp
  next
    fix c
    assume "category r = Some c" "c \<notin> {''stable'', ''mixed'', ''upset'', ''__proto__''}"
      "c \<notin> set object_prototype_methods"
    then show "\<exists>v. render rt p s = Inr (FullAnalysis v)
               \<and> badge_class v = badge_base_class @ ''undefined''
               \<and> badge_children v = [Undefined, Str '' '', string_child (description r)]"
      using unknown_key by (simp add: property_key_def)
  qed
  have inherited: "\<forall>c. c \<in> set object_prototype_methods \<and> category r = Some c \<longrightarrow>
            (\<exists>v. render rt p s = Inr (FullAnalysis v)
               \<and> badge_class v = badge_base_class @ function_to_string rt c
               \<and> badge_children v = [Function c, Str '' '', string_child (description r)])"
  proof (intro allI impI, elim conjE)
    fix c
    assume c: "c \<in> set object_prototype_methods" and cat: "category r = Some c"
    show "\<exists>v. render rt p s = Inr (FullAnalysis v)
               \<and> badge_class v = badge_base_class @ function_to_string rt c
               \<and> badge_children v = [Function c, Str '' '', string_child (description r)]"
      using badge_of_full_analysis [of r "Function c" rt p] lookup_method [OF c] cat
      by (simp add: r property_key_def)
  qed
  show ?thesis using stable mixed upset other inherited by blast
qed

theorem category_presentation_witness:
  "success_branch (analyze_settle (Resolved (Some stable_race)) initial_state) stable_race
   \<and> (\<exists>v. render plain_runtime omura_12
             (analyze_settle (Resolved (Some stable_race)) initial_state) = Inr (FullAnalysis v)
          \<and> badge_class v = badge_base_class @ ''bg-green-100 text-green-800''
          \<and> badge_children v = [Str green_circle, Str '' '', Str ''stable''])
   \<and> success_branch (analyze_settle (Resolved (Some calm_category)) initial_state) calm_category
   \<and> (\<exists>v. render plain_runtime omura_12
             (analyze_settle (Resolved (Some calm_category)) initial_state) = Inr (FullAnalysis v)
          \<and> badge_class v = badge_base_class @ ''undefined''
          \<and> badge_children v = [Undefined, Str '' '', Str ''calm water''])
   \<and> success_branch (analyze_settle (Resolved (Some toString_category)) initial_state)
         toString_category
   \<and> (\<exists>v. render plain_runtime omura_12
             (analyze_settle (Resolved (Some toString_category)) initial_state) =
               Inr (FullAnalysis v)
          \<and> badge_class v = badge_base_class @ ''function toString() { [native code] }''
          \<and> badge_children v = [Function ''toString'', Str '' '', Undefined])"
proof -
  let ?a = "analyze_settle (Resolved (Some stable_race)) initial_state"
  let ?b = "analyze_settle (Resolved (Some calm_category)) initial_state"
  let ?c = "analyze_settle (Resolved (Some toString_category)) initial_state"
  have a: "success_branch ?a stable_race"
    by (rule success_after_settle) (simp_all add: stable_race_def empty_response_def)
  have b: "success_branch ?b calm_category"
    by (rule success_after_settle) (simp_all add: calm_category_def empty_response_def)
  have c: "success_branch ?c toString_category"
    by (rule success_after_settle) (simp_all add: toString_category_def empty_response_def)
  have first: "\<exists>v. render plain_runtime omura_12 ?a = Inr (FullAnalysis v)
          \<and> badge_class v = badge_base_class @ ''bg-green-100 text-green-800''
          \<and> badge_children v = [Str green_circle, Str '' '', Str ''stable'']"
    using category_presentation [OF a, of plain_runtime omura_12]
    by (simp add: stable_race_def string_child_def)
  have second: "\<exists>v. render plain_runtime omura_12 ?b = Inr (FullAnalysis v)
          \<and> badge_class v = badge_base_class @ ''undefined''
          \<and> badge_children v = [Undefined, Str '' '', Str ''calm water'']"
    using category_presentation [OF b, of plain_runtime omura_12]
    by (simp add: calm_category_def string_child_def object_prototype_methods_def)
  have third: "\<exists>v. render plain_runtime omura_12 ?c = Inr (FullAnalysis v)
          \<and> badge_class v = badge_base_class @ ''function toString() { [native code] }''
          \<and> badge_children v = [Function ''toString'', Str '' '', Undefined]"
    using category_presentation [OF c, of plain_runtime omura_12]
    by (simp add: toString_category_def empty_response_def string_child_def
        object_prototype_methods_def plain_runtime_def)
  show ?thesis using a b c first second third by blast
qed

text \<open>
  The specification has every other category render without a throw. The category
  \<open>__proto__\<close> finds the prototype object itself, and React throws on an object as a
  child.
\<close>

theorem unknown_category_counterexample:
  "render plain_runtime omura_12
     (analyze_settle (Resolved (Some proto_category)) initial_state) = Inl InvalidChildError"
  by (simp add: render_def settle_resolved initial_state_def truthy_def proto_category_def
      empty_response_def full_analysis_def get_property_def property_key_def categoryIcons_def)

section \<open>A failed request\<close>

text \<open>
  C6. When the request is rejected, the component shows the failure view with the message of
  the error if it has a non-empty one and with the fixed text otherwise, whatever \<open>result\<close>
  holds. In every state the component can reach from its mount, and in every state the
  application can reach, a recorded error is what is shown. Starting the analysis again
  clears the error and shows the loading view, and the request that then resolves is shown
  exactly as its body alone is shown, with no trace of the failure. In the application the
  failure view has the back button: it leads to the selection screen, from where the user
  starts the analysis again, for the same or another selection, sees the loading view and
  then the view of the new response.
\<close>

theorem failure_is_shown:
  "render rt p (analyze_settle (Rejected err) s) =
     Inr (Failed (Str (case error_message err of
                         None \<Rightarrow> analysis_failed_text
                       | Some m \<Rightarrow> if m \<noteq> [] then m else analysis_failed_text)))
   \<and> (error (state (run (mount p0) evs)) = Some m' \<longrightarrow>
        shown rt (run (mount p0) evs) = Inr (Failed (Str m')))
   \<and> render rt p (analyze_begin s) = Inr Loading
   \<and> error (analyze_begin s) = None
   \<and> (\<forall>d x. render rt p (analyze_settle (Resolved d) (analyze_begin s)) \<noteq> Inr (Failed x))
   \<and> (\<forall>d. render rt p (analyze_settle (Resolved d) (analyze_begin s)) =
            render rt p \<lparr>loading = False, result = d, error = None\<rparr>)
   \<and> (mounted (app_run rt app_initial evs') = Some (k', s'') \<and> error s'' = Some m'' \<longrightarrow>
        app_render rt (app_run rt app_initial evs') =
          RaceAnalysisScreen (Inr (Failed (Str m''))))
   \<and> (mounted a = Some (k, s') \<and> k \<in> set (in_flight a) \<longrightarrow>
        app_render rt (app_step rt a (Settled k (Rejected err))) =
          RaceAnalysisScreen
            (Inr (Failed (Str (case error_message err of
                                 None \<Rightarrow> analysis_failed_text
                               | Some m \<Rightarrow> if m \<noteq> [] then m else analysis_failed_text)))))
   \<and> (app_render rt a = RaceAnalysisScreen (Inr (Failed x')) \<longrightarrow>
        app_render rt (app_step rt a OnBack) = Selection (app_venue a) (app_raceNumber a)
        \<and> app_render rt (app_run rt a [OnBack, HandleAnalyze]) = RaceAnalysisScreen (Inr Loading)
        \<and> (\<forall>d. app_render rt
                  (app_run rt a [OnBack, HandleAnalyze, Settled (Suc (mounts a)) (Resolved d)]) =
                RaceAnalysisScreen
                  (render rt (app_props a) \<lparr>loading = False, result = d, error = None\<rparr>))
        \<and> (\<forall>v n d. app_render rt
                  (app_run rt a [OnBack, ChangeVenue v, ChangeRaceNumber n, HandleAnalyze,
                                 Settled (Suc (mounts a)) (Resolved d)]) =
                RaceAnalysisScreen
                  (render rt \<lparr>venue = v, raceNumber = n\<rparr>
                     \<lparr>loading = False, result = d, error = None\<rparr>)))"
proof (intro conjI allI)
  show "render rt p (analyze_settle (Rejected err) s) =
     Inr (Failed (Str (case error_message err of
                         None \<Rightarrow> analysis_failed_text
                       | Some m \<Rightarrow> if m \<noteq> [] then m else analysis_failed_text)))"
    by (rule render_rejected)
  show "error (state (run (mount p0) evs)) = Some m' \<longrightarrow>
        shown rt (run (mount p0) evs) = Inr (Failed (Str m'))"
    using recorded_error_shown by blast
  show "render rt p (analyze_begin s) = Inr Loading"
    by (simp add: render_def begin_state)
  show "error (analyze_begin s) = None"
    by (simp add: begin_state)
  show "render rt p (analyze_settle (Resolved d) (analyze_begin s)) \<noteq> Inr (Failed x)" for d x
    by (auto simp: render_def settle_resolved begin_state truthy_def skip_view_def
        data_insufficient_view_def full_analysis_def Let_def split: option.splits)
  show "render rt p (analyze_settle (Resolved d) (analyze_begin s)) =
            render rt p \<lparr>loading = False, result = d, error = None\<rparr>" for d
    by (simp add: settle_resolved begin_state)
  show "mounted (app_run rt app_initial evs') = Some (k', s'') \<and> error s'' = Some m'' \<longrightarrow>
        app_render rt (app_run rt app_initial evs') =
          RaceAnalysisScreen (Inr (Failed (Str m'')))"
    using app_recorded_error_shown [OF app_run_own_request] by blast
  show "mounted a = Some (k, s') \<and> k \<in> set (in_flight a) \<longrightarrow>
        app_render rt (app_step rt a (Settled k (Rejected err))) =
          RaceAnalysisScreen
            (Inr (Failed (Str (case error_message err of
                                 None \<Rightarrow> analysis_failed_text
                               | Some m \<Rightarrow> if m \<noteq> [] then m else analysis_failed_text))))"
    by (simp add: app_render_def app_props_def render_rejected)
  show "app_render rt a = RaceAnalysisScreen (Inr (Failed x')) \<longrightarrow>
        app_render rt (app_step rt a OnBack) = Selection (app_venue a) (app_raceNumber a)
        \<and> app_render rt (app_run rt a [OnBack, HandleAnalyze]) = RaceAnalysisScreen (Inr Loading)
        \<and> (\<forall>d. app_render rt
                  (app_run rt a [OnBack, HandleAnalyze, Settled (Suc (mounts a)) (Resolved d)]) =
                RaceAnalysisScreen
                  (render rt (app_props a) \<lparr>loading = False, result = d, error = None\<rparr>))
        \<and> (\<forall>v n d. app_render rt
                  (app_run rt a [OnBack, ChangeVenue v, ChangeRaceNumber n, HandleAnalyze,
                                 Settled (Suc (mounts a)) (Resolved d)]) =
                RaceAnalysisScreen
                  (render rt \<lparr>venue = v, raceNumber = n\<rparr>
                     \<lparr>loading = False, result = d, error = None\<rparr>))"
  proof (intro impI)
    assume f: "app_render rt a = RaceAnalysisScreen (Inr (Failed x'))"
    then have b: "back_button rt a"
      by (auto simp: app_render_def back_button_def split: option.splits)
    show "app_render rt (app_step rt a OnBack) = Selection (app_venue a) (app_raceNumber a)
        \<and> app_render rt (app_run rt a [OnBack, HandleAnalyze]) = RaceAnalysisScreen (Inr Loading)
        \<and> (\<forall>d. app_render rt
                  (app_run rt a [OnBack, HandleAnalyze, Settled (Suc (mounts a)) (Resolved d)]) =
                RaceAnalysisScreen
                  (render rt (app_props a) \<lparr>loading = False, result = d, error = None\<rparr>))
        \<and> (\<forall>v n d. app_render rt
                  (app_run rt a [OnBack, ChangeVenue v, ChangeRaceNumber n, HandleAnalyze,
                                 Settled (Suc (mounts a)) (Resolved d)]) =
                RaceAnalysisScreen
                  (render rt \<lparr>venue = v, raceNumber = n\<rparr>
                     \<lparr>loading = False, result = d, error = None\<rparr>))"
      using b
      by (simp add: app_run_def app_render_def analyzing_def app_props_def
          settle_resolved begin_state initial_state_def render_loading)
  qed
qed

theorem failure_is_shown_witness:
  "error (state (run (mount omura_12) [Settle 1 (Rejected network_error)])) =
     Some ''Network Error''
   \<and> shown plain_runtime (run (mount omura_12) [Settle 1 (Rejected network_error)]) =
       Inr (Failed (Str ''Network Error''))
   \<and> app_render plain_runtime
         (app_run plain_runtime app_initial [HandleAnalyze, Settled 1 (Rejected network_error)]) =
       RaceAnalysisScreen (Inr (Failed (Str ''Network Error'')))
   \<and> app_render plain_runtime (app_run plain_runtime app_initial failed_then_retried) =
       RaceAnalysisScreen
         (Inr (DataInsufficient (Str ''too few races'') [Str ''30'', Str ''%'']))"
proof -
  let ?a1 = "app_run plain_runtime app_initial [HandleAnalyze]"
  let ?a2 = "app_run plain_runtime app_initial [HandleAnalyze, Settled 1 (Rejected network_error)]"
  have e: "error (state (run (mount omura_12) [Settle 1 (Rejected network_error)])) =
             Some ''Network Error''"
    by (simp add: run_def mount_def settle_rejected network_error_def or_else_def)
  from failure_is_shown [of plain_runtime omura_12 network_error initial_state omura_12
      "[Settle 1 (Rejected network_error)]" "''Network Error''"] e
  have old: "shown plain_runtime (run (mount omura_12) [Settle 1 (Rejected network_error)]) =
       Inr (Failed (Str ''Network Error''))"
    by blast
  have a2: "?a2 = app_step plain_runtime ?a1 (Settled 1 (Rejected network_error))"
    by (simp add: app_run_def)
  have m1: "mounted ?a1 = Some (1, analyze_begin initial_state) \<and> 1 \<in> set (in_flight ?a1)"
    unfolding first_request_sent by simp
  have msg: "(case error_message network_error of
               None \<Rightarrow> analysis_failed_text
             | Some m \<Rightarrow> if m \<noteq> [] then m else analysis_failed_text) = ''Network Error''"
    by (simp add: network_error_def)
  from failure_is_shown [of plain_runtime omura_12 network_error initial_state omura_12 "[]"
      "[]" "[]" 0 initial_state "[]" ?a1 1 "analyze_begin initial_state"] m1
  have f1: "app_render plain_runtime
              (app_step plain_runtime ?a1 (Settled 1 (Rejected network_error))) =
            RaceAnalysisScreen
              (Inr (Failed (Str (case error_message network_error of
                                   None \<Rightarrow> analysis_failed_text
                                 | Some m \<Rightarrow>
                                     if m \<noteq> [] then m else analysis_failed_text))))"
    by blast
  have failed: "app_render plain_runtime ?a2 =
      RaceAnalysisScreen (Inr (Failed (Str ''Network Error'')))"
    unfolding a2 using f1 [unfolded msg] .
  have m2: "mounts ?a2 = 1" "app_props ?a2 = omura_12"
    unfolding first_request_failed by (simp_all add: app_props_def omura_12_def)
  have two: "Suc (mounts ?a2) = 2"
    unfolding m2 by simp
  have split: "failed_then_retried =
      [HandleAnalyze, Settled 1 (Rejected network_error)]
        @ [OnBack, HandleAnalyze, Settled 2 (Resolved (Some too_few_races))]"
    by (simp add: failed_then_retried_def)
  from failure_is_shown [of plain_runtime omura_12 network_error initial_state omura_12 "[]"
      "[]" "[]" 0 initial_state "[]" ?a2 1 initial_state "Str ''Network Error''"] failed
  have "app_render plain_runtime
          (app_run plain_runtime ?a2
             [OnBack, HandleAnalyze, Settled (Suc (mounts ?a2)) (Resolved (Some too_few_races))]) =
        RaceAnalysisScreen
          (render plain_runtime (app_props ?a2)
             \<lparr>loading = False, result = Some too_few_races, error = None\<rparr>)"
    by blast
  then have "app_render plain_runtime
          (app_run plain_runtime ?a2
             [OnBack, HandleAnalyze, Settled 2 (Resolved (Some too_few_races))]) =
        RaceAnalysisScreen
          (render plain_runtime omura_12
             \<lparr>loading = False, result = Some too_few_races, error = None\<rparr>)"
    unfolding two m2(2) .
  moreover have "render plain_runtime omura_12
             \<lparr>loading = False, result = Some too_few_races, error = None\<rparr> =
        Inr (DataInsufficient (Str ''too few races'') [Str ''30'', Str ''%''])"
    using render_too_few_races [of omura_12]
    by (simp add: settle_resolved begin_state initial_state_def)
  ultimately have retried:
    "app_render plain_runtime (app_run plain_runtime app_initial failed_then_retried) =
       RaceAnalysisScreen
         (Inr (DataInsufficient (Str ''too few races'') [Str ''30'', Str ''%'']))"
    unfolding split app_run_append by simp
  show ?thesis using e old failed retried by blast
qed

section \<open>One request at a time\<close>



section \<open>A resolved request without a body\<close>

text \<open>
  C5. The loading view is chosen by the flag \<open>loading\<close>, which the effect sets when it
  fires and clears when the request settles. When the request resolves with \<open>null\<close>, the
  flag is cleared while both \<open>result\<close> and \<open>error\<close> are \<open>null\<close>: the two guarded tests
  pass over the \<open>null\<close> and the success branch throws a \<open>TypeError\<close> on
  \<open>result.category\<close>.
\<close>

theorem null_result_throws:
  "render rt p (analyze_settle (Resolved None) (analyze_begin initial_state)) = Inl TypeError"
  by (simp add: render_def settle_resolved begin_state truthy_def initial_state_def)

end
